theory Spec2Isabelle
  imports Main "HOL-Library.Word"
begin

text \<open>
  A shallow embedding of the storage core of cuRNN: the flattened container
  \<^verbatim>\<open>tensor4\<close> with its bound-checking accessor \<^verbatim>\<open>tensorBoundChecker\<close>
  (\<^verbatim>\<open>tensor.cuh\<close>) and the class \<^verbatim>\<open>layer\<close> (\<^verbatim>\<open>layer.hpp\<close>). Member functions take
  the object and return it updated; what is written to \<^verbatim>\<open>std::cerr\<close> is returned as a
  list of messages; a subscript outside a vector, undefined in C++, is the value
  \<open>Inl (OutOfBounds n)\<close>, and a load through a dangling reference the value
  \<open>Inl DanglingReference\<close>.
\<close>

section \<open>Machine types\<close>

text \<open>
  \<^verbatim>\<open>uint\<close> is a 32-bit unsigned integer: \<open>+\<close> and \<open>*\<close> wrap around modulo \<open>2 ^ 32\<close>.
  \<^verbatim>\<open>int\<close> is a 32-bit two's complement integer, kept as its bit pattern and read
  with \<open>sint\<close>; \<^verbatim>\<open>static_cast<uint>\<close> and the implicit conversion of an \<^verbatim>\<open>int\<close> operand
  that meets a \<^verbatim>\<open>uint\<close> operand keep the bit pattern.
\<close>

type_synonym uint = "32 word"
type_synonym cint = "32 word"

text \<open>\<^verbatim>\<open>std::numeric_limits<uint>::max()\<close>\<close>

definition uint_max :: uint where
  "uint_max = 4294967295"

section \<open>tensor4 (tensor.cuh)\<close>

record 'a tensor4 =
  w :: uint
  x :: uint
  y :: uint
  z :: uint
  data :: "'a list"

text \<open>
  An element access \<^verbatim>\<open>data[n]\<close> of a \<^verbatim>\<open>std::vector\<close> with \<open>n\<close> outside \<open>[0, size)\<close> has
  undefined behaviour, and so has a load through a reference to an object whose
  lifetime has ended; the model makes each a value.
\<close>

datatype ub = OutOfBounds nat | DanglingReference

definition vector_at :: "'a list \<Rightarrow> nat \<Rightarrow> ub + 'a" where
  "vector_at xs n = (if n < length xs then Inr (xs ! n) else Inl (OutOfBounds n))"

text \<open>\<^verbatim>\<open>std::vector::resize(n, v)\<close>: truncate to \<open>n\<close> elements, or append copies of \<open>v\<close>.\<close>

definition vector_resize :: "nat \<Rightarrow> 'a \<Rightarrow> 'a list \<Rightarrow> 'a list" where
  "vector_resize n v xs =
     (if n \<le> length xs then take n xs else xs @ replicate (n - length xs) v)"

text \<open>\<^verbatim>\<open>explicit tensor4() : w( 0 ), x ( 0 ), y ( 0 ), z ( 0 ) {}\<close>\<close>

definition tensor4_default :: "'a tensor4" where
  "tensor4_default = \<lparr>w = 0, x = 0, y = 0, z = 0, data = []\<rparr>"

text \<open>
  \<^verbatim>\<open>tensor4( uint _w, uint _x, uint _y, uint _z ) :
      w( _w ), x( _x ), y( _y ), z( _z ), data( _w * _x * y * _z, 0 ) {}\<close>
  The third factor is the member \<^verbatim>\<open>y\<close>, which is initialised (to \<^verbatim>\<open>_y\<close>) before \<^verbatim>\<open>data\<close>.
  The product has type \<^verbatim>\<open>uint\<close>.
\<close>

definition tensor4_new :: "uint \<Rightarrow> uint \<Rightarrow> uint \<Rightarrow> uint \<Rightarrow> ('a::zero) tensor4" where
  "tensor4_new w' x' y' z' =
     (let y_member = y'
      in \<lparr>w = w', x = x', y = y_member, z = z',
          data = replicate (unat (w' * x' * y_member * z')) 0\<rparr>)"

text \<open>\<^verbatim>\<open>size_t size() { return data.size(); }\<close>\<close>

definition tensor4_size :: "'a tensor4 \<Rightarrow> nat" where
  "tensor4_size t = length (data t)"

text \<open>
  \<^verbatim>\<open>void reshape( int w_new, int x_new, int y_new, int z_new )\<close>: an argument other
  than \<open>-1\<close> is cast to \<^verbatim>\<open>uint\<close> and stored; then \<^verbatim>\<open>data.resize( w * x * y * z, 0 )\<close>.
\<close>

definition reshape :: "('a::zero) tensor4 \<Rightarrow> cint \<Rightarrow> cint \<Rightarrow> cint \<Rightarrow> cint \<Rightarrow> 'a tensor4" where
  "reshape t w_new x_new y_new z_new =
     (let t1 = t\<lparr>w := (if w_new \<noteq> - 1 then w_new else w t)\<rparr>;
          t2 = t1\<lparr>x := (if x_new \<noteq> - 1 then x_new else x t1)\<rparr>;
          t3 = t2\<lparr>y := (if y_new \<noteq> - 1 then y_new else y t2)\<rparr>;
          t4 = t3\<lparr>z := (if z_new \<noteq> - 1 then z_new else z t3)\<rparr>
      in t4\<lparr>data := vector_resize (unat (w t4 * x t4 * y t4 * z t4)) 0 (data t4)\<rparr>)"

text \<open>
  \<^verbatim>\<open>void operator() ( uint w_new, uint x_new, uint y_new, uint z_new ) {
      w = w_new; x = x_new; y = y_new; z = z_new;
      data( w * x * y * z,  0 );
  }\<close>
  The last statement applies a call operator to a \<^verbatim>\<open>std::vector\<close>, which has none: the
  member is ill-formed as soon as a program instantiates it. It has no behaviour, and
  no definition here. Its return type is \<^verbatim>\<open>void\<close>.
\<close>

section \<open>tensorBoundChecker (tensor.cuh)\<close>

text \<open>
  The checker holds the dimension selector and a pointer to the tensor; here it holds
  the tensor's current value. \<^verbatim>\<open>tensor4::operator[]( int dim )\<close> builds it.
\<close>

record 'a tensorBoundChecker =
  dim :: cint
  tensor :: "'a tensor4"

definition tensor4_subscript :: "'a tensor4 \<Rightarrow> cint \<Rightarrow> 'a tensorBoundChecker" where
  "tensor4_subscript t d = \<lparr>dim = d, tensor = t\<rparr>"

text \<open>
  One message written to \<^verbatim>\<open>std::cerr\<close>. The two accessors end their messages
  differently (\<^verbatim>\<open>Returning first element\<close>, \<^verbatim>\<open>Returning max value\<close>).
  \<open>DimensionNotValid d f\<close> is \<^verbatim>\<open>Dimension d not valid for tensor\<close>;
  \<open>OutOfRangeError i d f\<close> is \<^verbatim>\<open>Out of Range error for index i in tensor dimension d\<close>.
\<close>

datatype fallback = FirstElement | MaxValue

datatype diagnostic =
    DimensionNotValid cint fallback
  | OutOfRangeError cint cint fallback

text \<open>
  The test \<^verbatim>\<open>index >= 0 && index < tensor->w\<close>: the first comparison is signed; in the
  second the \<^verbatim>\<open>int\<close> meets a \<^verbatim>\<open>uint\<close> and is converted to \<^verbatim>\<open>uint\<close>.
\<close>

definition index_check :: "cint \<Rightarrow> uint \<Rightarrow> bool" where
  "index_check index extent \<longleftrightarrow> 0 \<le> sint index \<and> index < extent"

text \<open>
  The writable \<^verbatim>\<open>dType& operator[]( int index )\<close>. The result is the messages written
  and the position in \<^verbatim>\<open>tensor->data\<close> of the element the returned reference designates.
  \<open>None\<close> stands for the \<^verbatim>\<open>default:\<close> branch of the switch, which returns at once.
  The accessor compares no position with the size of the vector; a position outside it
  shows when the reference is used (\<open>ref_read\<close>, \<open>ref_write\<close> below).
\<close>

definition subscript_offset :: "'a tensorBoundChecker \<Rightarrow> cint \<Rightarrow> uint option" where
  "subscript_offset c index =
     (if dim c = 0 then
        Some (if index_check index (w (tensor c)) then index else uint_max)
      else if dim c = 1 then
        Some (if index_check index (x (tensor c)) then w (tensor c) + index else uint_max)
      else if dim c = 2 then
        Some (if index_check index (y (tensor c))
              then w (tensor c) + x (tensor c) + index else uint_max)
      else if dim c = 3 then
        Some (if index_check index (z (tensor c))
              then w (tensor c) + x (tensor c) + y (tensor c) + index else uint_max)
      else None)"

definition subscript :: "'a tensorBoundChecker \<Rightarrow> cint \<Rightarrow> diagnostic list \<times> nat" where
  "subscript c index =
     (case subscript_offset c index of
        None \<Rightarrow> ([DimensionNotValid (dim c) FirstElement], 0)
      | Some offset \<Rightarrow>
          if offset = uint_max then ([OutOfRangeError index (dim c) FirstElement], 0)
          else ([], unat offset))"

text \<open>Reading and writing through a reference into \<^verbatim>\<open>tensor->data\<close>.\<close>

definition ref_read :: "'a tensor4 \<Rightarrow> nat \<Rightarrow> ub + 'a" where
  "ref_read t n = vector_at (data t) n"

definition ref_write :: "'a tensor4 \<Rightarrow> nat \<Rightarrow> 'a \<Rightarrow> ub + 'a tensor4" where
  "ref_write t n v =
     (if n < length (data t) then Inr (t\<lparr>data := (data t)[n := v]\<rparr>)
      else Inl (OutOfBounds n))"

text \<open>\<^verbatim>\<open>t[d][index] = v\<close>: the messages written and the tensor after the store.\<close>

definition write_at ::
  "'a tensor4 \<Rightarrow> cint \<Rightarrow> cint \<Rightarrow> 'a \<Rightarrow> ub + (diagnostic list \<times> 'a tensor4)" where
  "write_at t d index v =
     (case subscript (tensor4_subscript t d) index of
        (msgs, n) \<Rightarrow>
          (case ref_write t n v of Inl e \<Rightarrow> Inl e | Inr t' \<Rightarrow> Inr (msgs, t')))"

text \<open>\<^verbatim>\<open>v = t[d][index]\<close> through the writable accessor.\<close>

definition read_at :: "'a tensor4 \<Rightarrow> cint \<Rightarrow> cint \<Rightarrow> ub + (diagnostic list \<times> 'a)" where
  "read_at t d index =
     (case subscript (tensor4_subscript t d) index of
        (msgs, n) \<Rightarrow>
          (case ref_read t n of Inl e \<Rightarrow> Inl e | Inr v \<Rightarrow> Inr (msgs, v)))"

text \<open>
  The read-only \<^verbatim>\<open>dType const& operator[]( int index ) const\<close>, with
  \<^verbatim>\<open>std::numeric_limits<dType>::max()\<close> as the parameter \<open>maxv\<close>.
  \<open>subscript_const_output\<close> is the switch, which gives the local variable \<^verbatim>\<open>output\<close>
  its value (\<open>None\<close> for the \<^verbatim>\<open>default:\<close> branch, which returns at once). A valid index
  of type \<^verbatim>\<open>int\<close> subscripts \<^verbatim>\<open>data\<close> as it is; elsewhere the sum is a \<^verbatim>\<open>uint\<close>.

  The function returns a reference, \<^verbatim>\<open>return output;\<close> to the local variable and
  \<^verbatim>\<open>return std::numeric_limits<dType>::max();\<close> to a temporary: the object referred to
  is gone when the caller has the reference. \<open>DeadLocal v\<close> and \<open>DeadTemporary v\<close> are
  these references, \<open>v\<close> being what the object held when the function returned; no
  value is delivered, and a load through either is undefined (\<open>dead_ref_load\<close>).
  The result of \<open>subscript_const\<close> is the messages written and the reference returned.
\<close>

datatype 'a dead_ref = DeadLocal 'a | DeadTemporary 'a

definition dead_ref_load :: "'a dead_ref \<Rightarrow> ub + 'a" where
  "dead_ref_load r = Inl DanglingReference"

definition subscript_const_output ::
  "'a \<Rightarrow> 'a tensorBoundChecker \<Rightarrow> cint \<Rightarrow> (ub + 'a) option" where
  "subscript_const_output maxv c index =
     (if dim c = 0 then
        Some (if index_check index (w (tensor c))
              then vector_at (data (tensor c)) (nat (sint index)) else Inr maxv)
      else if dim c = 1 then
        Some (if index_check index (x (tensor c))
              then vector_at (data (tensor c)) (unat (w (tensor c) + index)) else Inr maxv)
      else if dim c = 2 then
        Some (if index_check index (y (tensor c))
              then vector_at (data (tensor c)) (unat (w (tensor c) + x (tensor c) + index))
              else Inr maxv)
      else if dim c = 3 then
        Some (if index_check index (z (tensor c))
              then vector_at (data (tensor c))
                     (unat (w (tensor c) + x (tensor c) + y (tensor c) + index))
              else Inr maxv)
      else None)"

definition subscript_const ::
  "'a \<Rightarrow> 'a tensorBoundChecker \<Rightarrow> cint \<Rightarrow> ub + (diagnostic list \<times> 'a dead_ref)" where
  "subscript_const maxv c index =
     (case subscript_const_output maxv c index of
        None \<Rightarrow> Inr ([DimensionNotValid (dim c) MaxValue], DeadTemporary maxv)
      | Some (Inl e) \<Rightarrow> Inl e
      | Some (Inr output) \<Rightarrow>
          Inr (if output = maxv then [OutOfRangeError index (dim c) MaxValue] else [],
               DeadLocal output))"

text \<open>\<^verbatim>\<open>v = c[index]\<close> for a read-only checker \<^verbatim>\<open>c\<close> on axis \<open>d\<close> of \<open>t\<close>.\<close>

definition read_const_at ::
  "'a \<Rightarrow> 'a tensor4 \<Rightarrow> cint \<Rightarrow> cint \<Rightarrow> ub + (diagnostic list \<times> 'a)" where
  "read_const_at maxv t d index =
     (case subscript_const maxv (tensor4_subscript t d) index of
        Inl e \<Rightarrow> Inl e
      | Inr (msgs, r) \<Rightarrow>
          (case dead_ref_load r of Inl e \<Rightarrow> Inl e | Inr v \<Rightarrow> Inr (msgs, v)))"

section \<open>layer (layer.hpp)\<close>

text \<open>
  Modelled from the spec: the storage policy, the base class \<^verbatim>\<open>typePolicy\<close> of \<^verbatim>\<open>layer\<close>,
  is not among the sources. It supplies the tensor \<^verbatim>\<open>wba\<close> (a \<^verbatim>\<open>tensor4<dType>\<close>, as the
  return type of \<^verbatim>\<open>getWBA\<close> also says) and the sequence \<^verbatim>\<open>errors\<close>; their initial
  values are whatever the policy's constructor leaves.
\<close>

record 'a typePolicy =
  wba :: "'a tensor4"
  errors :: "'a list"

record 'a layer = "'a typePolicy" +
  numNodes :: uint
  numInputs :: uint
  depth :: uint
  outputs :: "'a list"

text \<open>
  \<^verbatim>\<open>explicit layer() :
      numNodes( _nodes ), numInputs( _inputs ), depth( _depth ), outputs( _nodes, 0 ) {}\<close>
  The base class is constructed first; the template arguments are the first three
  parameters.
\<close>

definition layer_new :: "uint \<Rightarrow> uint \<Rightarrow> uint \<Rightarrow> 'a typePolicy \<Rightarrow> ('a::zero) layer" where
  "layer_new nodes' inputs' depth' policy =
     \<lparr>wba = wba policy, errors = errors policy,
      numNodes = nodes', numInputs = inputs', depth = depth',
      outputs = replicate (unat nodes') 0\<rparr>"

text \<open>
  \<^verbatim>\<open>for ( uint d = 0; d < depth; d++ )
      for( uint i = 0; i < numInputs; i++ )
          for ( uint n = 0; n < numNodes; n++ )
              this->wba( n, i, d, 0 ) = curnn::math::rand( min, max );\<close>
  The three nested loops are one recursive function on the layer and the three counters.
  The statement assigns through a call operator of \<^verbatim>\<open>wba\<close> that yields an element.
  \<^verbatim>\<open>tensor.cuh\<close> has none (its \<^verbatim>\<open>operator()\<close> returns \<^verbatim>\<open>void\<close>), and
  \<^verbatim>\<open>curnn::math::rand\<close> is not among the sources. So both are parameters:
  \<open>assign t n i d e v\<close> is \<^verbatim>\<open>wba\<close> after \<^verbatim>\<open>wba( n, i, d, e ) = v\<close> on \<^verbatim>\<open>wba\<close> equal to
  \<open>t\<close>, whatever that assignment does to the tensor, and \<open>rand d i n min max\<close> is the
  value drawn in the iteration \<open>(d, i, n)\<close>.
\<close>

function initializeWeights_loop ::
  "('a tensor4 \<Rightarrow> uint \<Rightarrow> uint \<Rightarrow> uint \<Rightarrow> uint \<Rightarrow> 'a \<Rightarrow> 'a tensor4) \<Rightarrow>
   (uint \<Rightarrow> uint \<Rightarrow> uint \<Rightarrow> 'a \<Rightarrow> 'a \<Rightarrow> 'a) \<Rightarrow>
   'a layer \<Rightarrow> 'a \<Rightarrow> 'a \<Rightarrow> uint \<Rightarrow> uint \<Rightarrow> uint \<Rightarrow> 'a layer" where
  "initializeWeights_loop assign rand L min' max' d i n =
     (if d < depth L then
        if i < numInputs L then
          if n < numNodes L then
            initializeWeights_loop assign rand
              (L\<lparr>wba := assign (wba L) n i d 0 (rand d i n min' max')\<rparr>) min' max' d i (n + 1)
          else initializeWeights_loop assign rand L min' max' d (i + 1) 0
        else initializeWeights_loop assign rand L min' max' (d + 1) 0 0
      else L)"
  by pat_completeness auto
termination
proof -
  let ?R = "measures
    [\<lambda>(assign :: 'a tensor4 \<Rightarrow> uint \<Rightarrow> uint \<Rightarrow> uint \<Rightarrow> uint \<Rightarrow> 'a \<Rightarrow> 'a tensor4,
       rand :: uint \<Rightarrow> uint \<Rightarrow> uint \<Rightarrow> 'a \<Rightarrow> 'a \<Rightarrow> 'a, L :: 'a layer, lo :: 'a, hi :: 'a, d, i, n).
        unat (depth L) - unat d,
     \<lambda>(assign, rand, L, lo, hi, d, i, n). unat (numInputs L) - unat i,
     \<lambda>(assign, rand, L, lo, hi, d, i, n). unat (numNodes L) - unat n]"
  have step: "unat b - unat (a + 1) < unat b - unat a" if "a < b" for a b :: uint
  proof -
    have "unat a < unat b" using that by (simp add: word_less_nat_alt)
    moreover have "unat b < 2 ^ 32" using unsigned_less [of b] by simp
    ultimately have "unat a + unat (1 :: uint) < 2 ^ LENGTH(32)" by simp
    then have "unat (a + 1) = unat a + unat (1 :: uint)" by (simp only: unat_add_lem)
    with \<open>unat a < unat b\<close> show ?thesis by simp
  qed
  show ?thesis
  proof (relation ?R)
    show "wf ?R" by simp
  next
    fix assign :: "'a tensor4 \<Rightarrow> uint \<Rightarrow> uint \<Rightarrow> uint \<Rightarrow> uint \<Rightarrow> 'a \<Rightarrow> 'a tensor4"
      and rand :: "uint \<Rightarrow> uint \<Rightarrow> uint \<Rightarrow> 'a \<Rightarrow> 'a \<Rightarrow> 'a"
      and L :: "'a layer" and lo hi :: 'a and d i n :: uint
    assume "d < depth L" "i < numInputs L" "n < numNodes L"
    then show "((assign, rand, L\<lparr>wba := assign (wba L) n i d 0 (rand d i n lo hi)\<rparr>,
                 lo, hi, d, i, n + 1), assign, rand, L, lo, hi, d, i, n) \<in> ?R"
      using step [of n "numNodes L"] by simp
  next
    fix assign :: "'a tensor4 \<Rightarrow> uint \<Rightarrow> uint \<Rightarrow> uint \<Rightarrow> uint \<Rightarrow> 'a \<Rightarrow> 'a tensor4"
      and rand :: "uint \<Rightarrow> uint \<Rightarrow> uint \<Rightarrow> 'a \<Rightarrow> 'a \<Rightarrow> 'a"
      and L :: "'a layer" and lo hi :: 'a and d i n :: uint
    assume "d < depth L" "i < numInputs L"
    then show "((assign, rand, L, lo, hi, d, i + 1, 0), assign, rand, L, lo, hi, d, i, n) \<in> ?R"
      using step [of i "numInputs L"] by simp
  next
    fix assign :: "'a tensor4 \<Rightarrow> uint \<Rightarrow> uint \<Rightarrow> uint \<Rightarrow> uint \<Rightarrow> 'a \<Rightarrow> 'a tensor4"
      and rand :: "uint \<Rightarrow> uint \<Rightarrow> uint \<Rightarrow> 'a \<Rightarrow> 'a \<Rightarrow> 'a"
      and L :: "'a layer" and lo hi :: 'a and d i n :: uint
    assume "d < depth L"
    then show "((assign, rand, L, lo, hi, d + 1, 0, 0), assign, rand, L, lo, hi, d, i, n) \<in> ?R"
      using step [of d "depth L"] by simp
  qed
qed

declare initializeWeights_loop.simps [simp del]

text \<open>\<^verbatim>\<open>inline void initializeWeights( dType min, dType max )\<close>\<close>

definition initializeWeights ::
  "('a tensor4 \<Rightarrow> uint \<Rightarrow> uint \<Rightarrow> uint \<Rightarrow> uint \<Rightarrow> 'a \<Rightarrow> 'a tensor4) \<Rightarrow>
   (uint \<Rightarrow> uint \<Rightarrow> uint \<Rightarrow> 'a \<Rightarrow> 'a \<Rightarrow> 'a) \<Rightarrow> 'a layer \<Rightarrow> 'a \<Rightarrow> 'a \<Rightarrow> 'a layer" where
  "initializeWeights assign rand L min' max' = initializeWeights_loop assign rand L min' max' 0 0 0"

section \<open>The words of the specification\<close>

text \<open>
  The extent of an axis, an index within \<open>[0, extent)\<close> read as integers, and the additive
  offset \<open>index\<close>, \<open>w + index\<close>, \<open>w + x + index\<close>, \<open>w + x + y + index\<close> in \<^verbatim>\<open>uint\<close>
  arithmetic: the terms in which the specification describes the accessors.
\<close>

definition extent_of :: "'a tensor4 \<Rightarrow> cint \<Rightarrow> uint option" where
  "extent_of t d =
     (if d = 0 then Some (w t) else if d = 1 then Some (x t)
      else if d = 2 then Some (y t) else if d = 3 then Some (z t) else None)"

definition index_valid :: "'a tensor4 \<Rightarrow> cint \<Rightarrow> cint \<Rightarrow> bool" where
  "index_valid t d index =
     (case extent_of t d of
        None \<Rightarrow> False
      | Some e \<Rightarrow> 0 \<le> sint index \<and> sint index < uint e)"

definition offset_of :: "'a tensor4 \<Rightarrow> cint \<Rightarrow> cint \<Rightarrow> uint" where
  "offset_of t d index =
     (if d = 0 then index else if d = 1 then w t + index
      else if d = 2 then w t + x t + index else w t + x t + y t + index)"

text \<open>
  The storage invariant in the words of the specification: the length of \<^verbatim>\<open>data\<close> is the
  product of the four extents.
\<close>

definition tensor4_inv :: "'a tensor4 \<Rightarrow> bool" where
  "tensor4_inv t \<longleftrightarrow> length (data t) = unat (w t) * unat (x t) * unat (y t) * unat (z t)"

section \<open>What the code keeps\<close>

text \<open>
  The length of \<^verbatim>\<open>data\<close> is the value of the expression \<^verbatim>\<open>w * x * y * z\<close> of type
  \<^verbatim>\<open>uint\<close>: the product of the extents modulo \<open>2 ^ 32\<close>.
\<close>

definition tensor4_sized :: "'a tensor4 \<Rightarrow> bool" where
  "tensor4_sized t \<longleftrightarrow> length (data t) = unat (w t * x t * y t * z t)"

section \<open>Auxiliary facts\<close>

subsection \<open>Integers\<close>

lemma uint_max_minus_one: "uint_max = - 1"
  by (simp add: uint_max_def)

lemma sint_nonneg_uint: "sint i = uint i" if "0 \<le> sint i" for i :: cint
proof -
  have "sint i < 2 ^ 31" using sint_lt [of i] by simp
  then have "sint i < 2 ^ 32" by simp
  with that have "take_bit 32 (sint i) = sint i" by (simp add: take_bit_int_eq_self)
  then show ?thesis using uint_sint [of i] by simp
qed

text \<open>The test of the code is the membership \<open>0 \<le> index < extent\<close> of the integers.\<close>

lemma index_check_iff:
  "index_check index e \<longleftrightarrow> 0 \<le> sint index \<and> sint index < uint e"
  by (auto simp: index_check_def word_less_def sint_nonneg_uint)

lemma nonneg_not_uint_max: "0 \<le> sint (i :: cint) \<Longrightarrow> i \<noteq> uint_max"
  by (auto simp: uint_max_minus_one)

lemma nat_sint_unat: "0 \<le> sint (i :: cint) \<Longrightarrow> nat (sint i) = unat i"
  by (simp add: sint_nonneg_uint)

text \<open>Where the product of the extents fits 32 bits, the \<^verbatim>\<open>uint\<close> product is that product.\<close>

lemma unat_product4:
  "unat a * unat b * unat c * unat e < 2 ^ 32 \<Longrightarrow>
   unat (a * b * c * e :: uint) = unat a * unat b * unat c * unat e"
  by (simp add: unat_word_ariths mod_mult_left_eq mod_mult_right_eq)

subsection \<open>The vector\<close>

lemma length_vector_resize [simp]: "length (vector_resize n v xs) = n"
  by (simp add: vector_resize_def)

lemma vector_resize_old: "i < length xs \<Longrightarrow> i < n \<Longrightarrow> vector_resize n v xs ! i = xs ! i"
  by (simp add: vector_resize_def nth_append)

lemma vector_resize_new: "length xs \<le> i \<Longrightarrow> i < n \<Longrightarrow> vector_resize n v xs ! i = v"
  by (simp add: vector_resize_def nth_append)

subsection \<open>The switch of the two accessors\<close>

lemma checker_fields [simp]:
  "dim (tensor4_subscript t d) = d" "tensor (tensor4_subscript t d) = t"
  by (simp_all add: tensor4_subscript_def)

lemma index_valid_data_update [simp]:
  "index_valid (t\<lparr>data := xs\<rparr>) d index = index_valid t d index"
  by (simp add: index_valid_def extent_of_def)

lemma offset_of_data_update [simp]:
  "offset_of (t\<lparr>data := xs\<rparr>) d index = offset_of t d index"
  by (simp add: offset_of_def)

lemma extent_of_data_update [simp]:
  "extent_of (t\<lparr>data := xs\<rparr>) d = extent_of t d"
  by (simp add: extent_of_def)

lemma subscript_offset_invalid_dim:
  "extent_of t d = None \<Longrightarrow> subscript_offset (tensor4_subscript t d) index = None"
  by (simp add: extent_of_def subscript_offset_def split: if_splits)

lemma subscript_offset_valid:
  "index_valid t d index \<Longrightarrow>
   subscript_offset (tensor4_subscript t d) index = Some (offset_of t d index)"
  by (auto simp: index_valid_def extent_of_def subscript_offset_def
      offset_of_def index_check_iff split: if_splits option.splits)

lemma subscript_offset_out_of_range:
  "extent_of t d = Some e \<Longrightarrow> \<not> index_valid t d index \<Longrightarrow>
   subscript_offset (tensor4_subscript t d) index = Some uint_max"
  by (auto simp: index_valid_def extent_of_def subscript_offset_def
      index_check_iff split: if_splits)

lemma subscript_const_output_invalid_dim:
  "extent_of t d = None \<Longrightarrow> subscript_const_output maxv (tensor4_subscript t d) index = None"
  by (simp add: extent_of_def subscript_const_output_def split: if_splits)

lemma subscript_const_output_valid:
  "index_valid t d index \<Longrightarrow>
   subscript_const_output maxv (tensor4_subscript t d) index =
     Some (vector_at (data t) (unat (offset_of t d index)))"
  by (auto simp: index_valid_def extent_of_def subscript_const_output_def
      offset_of_def index_check_iff nat_sint_unat split: if_splits option.splits)

lemma subscript_const_output_out_of_range:
  "extent_of t d = Some e \<Longrightarrow> \<not> index_valid t d index \<Longrightarrow>
   subscript_const_output maxv (tensor4_subscript t d) index = Some (Inr maxv)"
  by (auto simp: index_valid_def extent_of_def subscript_const_output_def
      index_check_iff split: if_splits)

subsection \<open>The two accessors\<close>

lemma subscript_valid:
  "index_valid t d index \<Longrightarrow>
   subscript (tensor4_subscript t d) index =
     (if offset_of t d index = uint_max then ([OutOfRangeError index d FirstElement], 0)
      else ([], unat (offset_of t d index)))"
  by (simp add: subscript_def subscript_offset_valid)

lemma subscript_invalid:
  "\<not> index_valid t d index \<Longrightarrow>
   subscript (tensor4_subscript t d) index =
     ([if extent_of t d = None then DimensionNotValid d FirstElement
       else OutOfRangeError index d FirstElement], 0)"
  by (cases "extent_of t d")
     (simp_all add: subscript_def subscript_offset_invalid_dim subscript_offset_out_of_range)

lemma subscript_const_valid:
  "index_valid t d index \<Longrightarrow>
   subscript_const maxv (tensor4_subscript t d) index =
     (case vector_at (data t) (unat (offset_of t d index)) of
        Inl e \<Rightarrow> Inl e
      | Inr v \<Rightarrow>
          Inr (if v = maxv then [OutOfRangeError index d MaxValue] else [], DeadLocal v))"
  by (simp add: subscript_const_def subscript_const_output_valid split: sum.splits)

lemma subscript_const_invalid:
  "\<not> index_valid t d index \<Longrightarrow>
   subscript_const maxv (tensor4_subscript t d) index =
     Inr ([if extent_of t d = None then DimensionNotValid d MaxValue
           else OutOfRangeError index d MaxValue],
          if extent_of t d = None then DeadTemporary maxv else DeadLocal maxv)"
  by (cases "extent_of t d")
     (simp_all add: subscript_const_def subscript_const_output_invalid_dim
        subscript_const_output_out_of_range)

lemma subscript_const_in_store:
  assumes "index_valid t d index" and "unat (offset_of t d index) < length (data t)"
  shows "subscript_const maxv (tensor4_subscript t d) index =
           Inr (if data t ! unat (offset_of t d index) = maxv
                then [OutOfRangeError index d MaxValue] else [],
                DeadLocal (data t ! unat (offset_of t d index)))"
  using assms by (simp add: subscript_const_valid vector_at_def)

text \<open>A load through the read-only accessor delivers no value, whatever the access.\<close>

lemma read_const_at_delivers_nothing: "read_const_at maxv t d index \<noteq> Inr r"
  by (simp add: read_const_at_def dead_ref_load_def split: sum.splits prod.splits)

lemma read_const_at_valid:
  assumes "index_valid t d index" and "unat (offset_of t d index) < length (data t)"
  shows "read_const_at maxv t d index = Inl DanglingReference"
  using assms by (simp add: read_const_at_def subscript_const_in_store dead_ref_load_def)

lemma offset_dim0_not_max: "index_valid t 0 index \<Longrightarrow> offset_of t 0 index \<noteq> uint_max"
  by (auto simp: index_valid_def extent_of_def offset_of_def dest: nonneg_not_uint_max)

text \<open>A store of the length of the \<^verbatim>\<open>uint\<close> product has no element at offset \<open>uint_max\<close>.\<close>

lemma sized_offset_not_max:
  assumes "tensor4_sized t" and "unat off < length (data t)"
  shows "off \<noteq> uint_max"
proof
  assume "off = uint_max"
  then have "unat off = 4294967295" by (simp add: uint_max_def)
  moreover have "unat (w t * x t * y t * z t) < 2 ^ 32"
    using unsigned_less [of "w t * x t * y t * z t"] by simp
  ultimately show False using assms by (simp add: tensor4_sized_def)
qed

lemma write_at_valid:
  assumes "index_valid t d index" and "offset_of t d index \<noteq> uint_max"
    and "unat (offset_of t d index) < length (data t)"
  shows "write_at t d index v =
           Inr ([], t\<lparr>data := (data t)[unat (offset_of t d index) := v]\<rparr>)"
  using assms by (simp add: write_at_def subscript_valid ref_write_def)

lemma read_at_valid:
  assumes "index_valid t d index" and "offset_of t d index \<noteq> uint_max"
    and "unat (offset_of t d index) < length (data t)"
  shows "read_at t d index = Inr ([], data t ! unat (offset_of t d index))"
  using assms by (simp add: read_at_def subscript_valid ref_read_def vector_at_def)

subsection \<open>The length of the store, operation by operation\<close>

lemma tensor4_sized_default: "tensor4_sized tensor4_default"
  by (simp add: tensor4_sized_def tensor4_default_def)

lemma tensor4_sized_new: "tensor4_sized (tensor4_new a b c e)"
  by (simp add: tensor4_sized_def tensor4_new_def)

lemma tensor4_sized_reshape: "tensor4_sized (reshape t a b c e)"
  by (simp add: tensor4_sized_def reshape_def Let_def)

lemma length_data_ref_write: "ref_write t n v = Inr t' \<Longrightarrow> length (data t') = length (data t)"
  by (auto simp: ref_write_def split: if_splits)

lemma extents_ref_write:
  "ref_write t n v = Inr t' \<Longrightarrow> w t' = w t \<and> x t' = x t \<and> y t' = y t \<and> z t' = z t"
  by (auto simp: ref_write_def split: if_splits)

lemma write_at_ref_write:
  "write_at t d index v = Inr (msgs, t') \<Longrightarrow>
   ref_write t (snd (subscript (tensor4_subscript t d) index)) v = Inr t'"
  by (auto simp: write_at_def split: prod.splits sum.splits)

lemma tensor4_sized_write_at:
  "tensor4_sized t \<Longrightarrow> write_at t d index v = Inr (msgs, t') \<Longrightarrow> tensor4_sized t'"
  using write_at_ref_write [of t d index v msgs t']
    length_data_ref_write [of t _ v t'] extents_ref_write [of t _ v t']
  by (simp add: tensor4_sized_def)

lemma tensor4_inv_write_at:
  "tensor4_inv t \<Longrightarrow> write_at t d index v = Inr (msgs, t') \<Longrightarrow> tensor4_inv t'"
  using write_at_ref_write [of t d index v msgs t']
    length_data_ref_write [of t _ v t'] extents_ref_write [of t _ v t']
  by (simp add: tensor4_inv_def)

text \<open>Where the product of the extents is below \<open>2 ^ 32\<close>, the two lengths are one.\<close>

lemma tensor4_sized_inv:
  "tensor4_sized t \<Longrightarrow> unat (w t) * unat (x t) * unat (y t) * unat (z t) < 2 ^ 32 \<Longrightarrow>
   tensor4_inv t"
  by (simp add: tensor4_sized_def tensor4_inv_def unat_product4)

lemma extents_tensor4_new [simp]:
  "w (tensor4_new a b c e) = a" "x (tensor4_new a b c e) = b"
  "y (tensor4_new a b c e) = c" "z (tensor4_new a b c e) = e"
  by (simp_all add: tensor4_new_def)

subsection \<open>The loops of initializeWeights\<close>

lemma initializeWeights_loop_outputs:
  "outputs (initializeWeights_loop assign rand L min' max' d i n) = outputs L"
proof (induction assign rand L min' max' d i n rule: initializeWeights_loop.induct)
  case (1 assign rand L min' max' d i n)
  show ?case
    by (subst initializeWeights_loop.simps) (simp add: 1)
qed

section \<open>The additive offsets\<close>

text \<open>
  Claim C2 does not hold of the writable accessor. The tensor built with extents
  \<open>(4294967295, 4294967295, 1, 1)\<close> holds one element. On axis 1 the index 0 is within
  the extent and its additive offset \<open>w + index\<close> is 4294967295, the largest \<^verbatim>\<open>uint\<close>,
  which the writable accessor also uses to mark an index outside the range: it writes
  the out-of-range message and returns a reference to position 0. The read-only
  accessor, on the same access, subscripts \<^verbatim>\<open>data\<close> at position 4294967295, which is
  \<open>w + index\<close>.
\<close>

theorem subscript_at_marker_offset:
  "index_valid (tensor4_new 4294967295 4294967295 1 1 :: int tensor4) 1 0
   \<and> tensor4_size (tensor4_new 4294967295 4294967295 1 1 :: int tensor4) = 1
   \<and> offset_of (tensor4_new 4294967295 4294967295 1 1 :: int tensor4) 1 0 = 4294967295
   \<and> subscript (tensor4_subscript (tensor4_new 4294967295 4294967295 1 1 :: int tensor4) 1) 0
       = ([OutOfRangeError 0 1 FirstElement], 0)
   \<and> subscript_const 2147483647
        (tensor4_subscript (tensor4_new 4294967295 4294967295 1 1 :: int tensor4) 1) 0
       = Inl (OutOfBounds 4294967295)"
  by (simp add: tensor4_new_def tensor4_size_def index_valid_def extent_of_def offset_of_def
      subscript_def subscript_offset_def subscript_const_def subscript_const_output_def
      vector_at_def index_check_def uint_max_def)

section \<open>The length of the store\<close>

text \<open>
  Claim C3, as the code has it. After either constructor and after \<^verbatim>\<open>reshape\<close>,
  whatever the tensor was before, the length of \<^verbatim>\<open>data\<close> is the value of
  \<^verbatim>\<open>w * x * y * z\<close> in \<^verbatim>\<open>uint\<close>, the product of the extents modulo \<open>2 ^ 32\<close>, and a
  store through the writable accessor keeps that; \<^verbatim>\<open>size()\<close> returns it after
  construction and after a reshape. Where the product of the extents is below \<open>2 ^ 32\<close>
  the length is that product, and a store through the accessor keeps that too.
\<close>

theorem tensor4_storage_invariant:
  "tensor4_sized (tensor4_default :: 'a tensor4)
   \<and> tensor4_sized (tensor4_new a b c e :: ('a::zero) tensor4)
   \<and> tensor4_sized (reshape (t :: 'a tensor4) a' b' c' e')
   \<and> (tensor4_sized t \<longrightarrow> write_at t d index v = Inr (msgs, t') \<longrightarrow> tensor4_sized t')
   \<and> tensor4_size (tensor4_default :: 'a tensor4) = 0
   \<and> tensor4_size (tensor4_new a b c e :: 'a tensor4) = unat (a * b * c * e)
   \<and> tensor4_size (reshape t a' b' c' e') =
        unat (w (reshape t a' b' c' e') * x (reshape t a' b' c' e')
              * y (reshape t a' b' c' e') * z (reshape t a' b' c' e'))
   \<and> tensor4_inv (tensor4_default :: 'a tensor4)
   \<and> (unat a * unat b * unat c * unat e < 2 ^ 32 \<longrightarrow>
        tensor4_inv (tensor4_new a b c e :: 'a tensor4))
   \<and> (unat (w (reshape t a' b' c' e')) * unat (x (reshape t a' b' c' e'))
        * unat (y (reshape t a' b' c' e')) * unat (z (reshape t a' b' c' e')) < 2 ^ 32 \<longrightarrow>
        tensor4_inv (reshape t a' b' c' e'))
   \<and> (tensor4_inv t \<longrightarrow> write_at t d index v = Inr (msgs, t') \<longrightarrow> tensor4_inv t')"
proof -
  have "tensor4_size (tensor4_default :: 'a tensor4) = 0"
    by (simp add: tensor4_size_def tensor4_default_def)
  moreover have "tensor4_inv (tensor4_default :: 'a tensor4)"
    by (simp add: tensor4_inv_def tensor4_default_def)
  moreover have "tensor4_size (tensor4_new a b c e :: 'a tensor4) = unat (a * b * c * e)"
    by (simp add: tensor4_size_def tensor4_new_def)
  moreover have "tensor4_size (reshape t a' b' c' e') =
        unat (w (reshape t a' b' c' e') * x (reshape t a' b' c' e')
              * y (reshape t a' b' c' e') * z (reshape t a' b' c' e'))"
    using tensor4_sized_reshape [of t a' b' c' e']
    by (simp add: tensor4_sized_def tensor4_size_def)
  moreover have "tensor4_sized t \<longrightarrow> write_at t d index v = Inr (msgs, t') \<longrightarrow> tensor4_sized t'"
    using tensor4_sized_write_at [of t d index v msgs t'] by simp
  moreover have "tensor4_inv t \<longrightarrow> write_at t d index v = Inr (msgs, t') \<longrightarrow> tensor4_inv t'"
    using tensor4_inv_write_at [of t d index v msgs t'] by simp
  moreover have "unat a * unat b * unat c * unat e < 2 ^ 32 \<longrightarrow>
        tensor4_inv (tensor4_new a b c e :: 'a tensor4)"
    using tensor4_sized_inv [of "tensor4_new a b c e :: 'a tensor4"]
      tensor4_sized_new [of a b c e, where ?'a = 'a]
    by simp
  moreover have "unat (w (reshape t a' b' c' e')) * unat (x (reshape t a' b' c' e'))
        * unat (y (reshape t a' b' c' e')) * unat (z (reshape t a' b' c' e')) < 2 ^ 32 \<longrightarrow>
        tensor4_inv (reshape t a' b' c' e')"
    using tensor4_sized_inv [of "reshape t a' b' c' e'"] tensor4_sized_reshape [of t a' b' c' e']
    by simp
  moreover have "tensor4_sized (tensor4_default :: 'a tensor4)"
    by (rule tensor4_sized_default)
  moreover have "tensor4_sized (tensor4_new a b c e :: 'a tensor4)"
    by (rule tensor4_sized_new)
  moreover have "tensor4_sized (reshape t a' b' c' e')"
    by (rule tensor4_sized_reshape)
  ultimately show ?thesis
    by (intro conjI) assumption+
qed

text \<open>
  The theorem at the tensor with extents \<open>(3, 2, 1, 1)\<close> and the store of 5 on axis 0,
  index 2.
\<close>

theorem tensor4_storage_invariant_witness:
  "tensor4_sized (tensor4_new 3 2 1 1 :: int tensor4)
   \<and> tensor4_inv (tensor4_new 3 2 1 1 :: int tensor4)
   \<and> unat (3 :: uint) * unat (2 :: uint) * unat (1 :: uint) * unat (1 :: uint) < 2 ^ 32
   \<and> write_at (tensor4_new 3 2 1 1 :: int tensor4) 0 2 5
       = Inr ([], \<lparr>w = 3, x = 2, y = 1, z = 1, data = [0, 0, 5, 0, 0, 0]\<rparr>)
   \<and> tensor4_sized (\<lparr>w = 3, x = 2, y = 1, z = 1, data = [0, 0, 5, 0, 0, 0]\<rparr> :: int tensor4)
   \<and> tensor4_inv (\<lparr>w = 3, x = 2, y = 1, z = 1, data = [0, 0, 5, 0, 0, 0]\<rparr> :: int tensor4)"
proof -
  have wr: "write_at (tensor4_new 3 2 1 1 :: int tensor4) 0 2 5
       = Inr ([], \<lparr>w = 3, x = 2, y = 1, z = 1, data = [0, 0, 5, 0, 0, 0]\<rparr>)"
    by code_simp
  from tensor4_storage_invariant [where t = "tensor4_new 3 2 1 1 :: int tensor4"
      and a = 3 and b = 2 and c = 1 and e = 1 and a' = 3 and b' = 2 and c' = 1 and e' = 1
      and d = 0 and index = 2 and v = 5 and msgs = "[]"
      and t' = "\<lparr>w = 3, x = 2, y = 1, z = 1, data = [0, 0, 5, 0, 0, 0]\<rparr>"]
  show ?thesis using wr by simp
qed

text \<open>
  Claim C3 as stated fails. The tensor built with extents \<open>(65536, 65536, 1, 1)\<close> has
  no element, and the product of its extents is 4294967296.
\<close>

theorem tensor4_size_wraps_counterexample:
  "tensor4_size (tensor4_new 65536 65536 1 1 :: int tensor4) = 0
   \<and> unat (w (tensor4_new 65536 65536 1 1 :: int tensor4))
       * unat (x (tensor4_new 65536 65536 1 1 :: int tensor4))
       * unat (y (tensor4_new 65536 65536 1 1 :: int tensor4))
       * unat (z (tensor4_new 65536 65536 1 1 :: int tensor4)) = 4294967296
   \<and> \<not> tensor4_inv (tensor4_new 65536 65536 1 1 :: int tensor4)"
  by (simp add: tensor4_size_def tensor4_inv_def tensor4_new_def)

section \<open>Store, then load\<close>

text \<open>
  Claim C4, as the code has it. In a tensor whose store has the length of the \<^verbatim>\<open>uint\<close>
  product of its extents, for an index within the extent of its axis whose additive
  offset lies inside the store, a store through the writable accessor writes no message
  and changes the element at that offset, and the load through the writable accessor,
  the one that \<^verbatim>\<open>t[d][index]\<close> selects, then returns the stored value. The tensor with
  extents \<open>(3, 2, 1, 1)\<close> has size 6, and after the store of 5 on axis 0, index 2, the
  load there returns 5.
\<close>

theorem write_read_round_trip:
  "(tensor4_sized t \<and> index_valid t d index \<and> unat (offset_of t d index) < length (data t) \<longrightarrow>
      write_at t d index v = Inr ([], t\<lparr>data := (data t)[unat (offset_of t d index) := v]\<rparr>)
    \<and> read_at (t\<lparr>data := (data t)[unat (offset_of t d index) := v]\<rparr>) d index = Inr ([], v))
   \<and> tensor4_size (tensor4_new 3 2 1 1 :: int tensor4) = 6
   \<and> write_at (tensor4_new 3 2 1 1 :: int tensor4) 0 2 5
       = Inr ([], \<lparr>w = 3, x = 2, y = 1, z = 1, data = [0, 0, 5, 0, 0, 0]\<rparr>)
   \<and> read_at (\<lparr>w = 3, x = 2, y = 1, z = 1, data = [0, 0, 5, 0, 0, 0]\<rparr> :: int tensor4) 0 2
       = Inr ([], 5)"
proof -
  have general:
    "write_at t d index v = Inr ([], t\<lparr>data := (data t)[unat (offset_of t d index) := v]\<rparr>)
    \<and> read_at (t\<lparr>data := (data t)[unat (offset_of t d index) := v]\<rparr>) d index = Inr ([], v)"
    if s: "tensor4_sized t" and v: "index_valid t d index"
      and b: "unat (offset_of t d index) < length (data t)"
  proof -
    have m: "offset_of t d index \<noteq> uint_max" using s b by (rule sized_offset_not_max)
    show ?thesis
      using v m b by (simp add: write_at_valid read_at_valid)
  qed
  have s1: "tensor4_size (tensor4_new 3 2 1 1 :: int tensor4) = 6"
    by (simp add: tensor4_size_def tensor4_new_def)
  have s2: "write_at (tensor4_new 3 2 1 1 :: int tensor4) 0 2 5
       = Inr ([], \<lparr>w = 3, x = 2, y = 1, z = 1, data = [0, 0, 5, 0, 0, 0]\<rparr>)"
    by code_simp
  have s3: "read_at (\<lparr>w = 3, x = 2, y = 1, z = 1, data = [0, 0, 5, 0, 0, 0]\<rparr> :: int tensor4) 0 2
       = Inr ([], 5)"
    by code_simp
  from general s1 s2 s3 show ?thesis by blast
qed

text \<open>
  The theorem at the tensor with extents \<open>(3, 2, 1, 1)\<close>, axis 1, index 1, value 7.
\<close>

theorem write_read_round_trip_witness:
  "tensor4_sized (tensor4_new 3 2 1 1 :: int tensor4)
   \<and> index_valid (tensor4_new 3 2 1 1 :: int tensor4) 1 1
   \<and> unat (offset_of (tensor4_new 3 2 1 1 :: int tensor4) 1 1)
       < length (data (tensor4_new 3 2 1 1 :: int tensor4))
   \<and> write_at (tensor4_new 3 2 1 1 :: int tensor4) 1 1 7
       = Inr ([], \<lparr>w = 3, x = 2, y = 1, z = 1, data = [0, 0, 0, 0, 7, 0]\<rparr>)
   \<and> read_at (\<lparr>w = 3, x = 2, y = 1, z = 1, data = [0, 0, 0, 0, 7, 0]\<rparr> :: int tensor4) 1 1
       = Inr ([], 7)"
proof -
  have t: "(tensor4_new 3 2 1 1 :: int tensor4)
             = \<lparr>w = 3, x = 2, y = 1, z = 1, data = [0, 0, 0, 0, 0, 0]\<rparr>" by code_simp
  have i: "tensor4_sized (\<lparr>w = 3, x = 2, y = 1, z = 1, data = [0, 0, 0, 0, 0, 0]\<rparr> :: int tensor4)"
    by code_simp
  have v: "index_valid (\<lparr>w = 3, x = 2, y = 1, z = 1, data = [0, 0, 0, 0, 0, 0]\<rparr> :: int tensor4) 1 1"
    by code_simp
  have o: "unat (offset_of
      (\<lparr>w = 3, x = 2, y = 1, z = 1, data = [0, 0, 0, 0, 0, 0]\<rparr> :: int tensor4) 1 1) = 4"
    by code_simp
  show ?thesis
    using write_read_round_trip [of "tensor4_new 3 2 1 1 :: int tensor4" 1 1 7] i v
    unfolding t by (simp add: o)
qed

text \<open>
  Claim C4 as stated fails. In the tensor with extents \<open>(3, 2, 1, 1)\<close> and 6 elements,
  the index 0 is within the extent of axis 3 and its offset is \<open>3 + 2 + 1 + 0 = 6\<close>: the
  store and the load through the accessor subscript the vector one past its last
  element.
\<close>

theorem write_read_round_trip_counterexample:
  "index_valid (tensor4_new 3 2 1 1 :: int tensor4) 3 0
   \<and> tensor4_size (tensor4_new 3 2 1 1 :: int tensor4) = 6
   \<and> write_at (tensor4_new 3 2 1 1 :: int tensor4) 3 0 5 = Inl (OutOfBounds 6)
   \<and> read_at (tensor4_new 3 2 1 1 :: int tensor4) 3 0 = Inl (OutOfBounds 6)"
  by code_simp

section \<open>Accesses outside the range\<close>

text \<open>
  Claim C5, as the code has it. An access whose dimension selector is none of 0, 1, 2, 3,
  or whose index is outside \<open>[0, extent)\<close> of its axis, writes exactly one message, with
  either accessor, and the read-only accessor subscripts no element on the way. The
  writable accessor returns a reference to position 0 of \<^verbatim>\<open>data\<close>; where the store is
  not empty, that is its first element, which a load returns and a store replaces.
\<close>

theorem out_of_range_access_sentinel:
  "\<not> index_valid t d index \<Longrightarrow>
     subscript (tensor4_subscript t d) index =
       ([if extent_of t d = None then DimensionNotValid d FirstElement
         else OutOfRangeError index d FirstElement], 0)
   \<and> length (fst (subscript (tensor4_subscript t d) index)) = 1
   \<and> map_sum id fst (subscript_const maxv (tensor4_subscript t d) index) =
       Inr [if extent_of t d = None then DimensionNotValid d MaxValue
            else OutOfRangeError index d MaxValue]
   \<and> (data t \<noteq> [] \<longrightarrow>
        read_at t d index = Inr (fst (subscript (tensor4_subscript t d) index), hd (data t))
        \<and> write_at t d index v =
            Inr (fst (subscript (tensor4_subscript t d) index), t\<lparr>data := (data t)[0 := v]\<rparr>))"
  by (simp add: subscript_invalid subscript_const_invalid write_at_def read_at_def
      ref_write_def ref_read_def vector_at_def hd_conv_nth)

text \<open>
  The theorem at the tensor with extents \<open>(3, 2, 1, 1)\<close>: axis 0 with index 5, and the
  dimension selector 4.
\<close>

theorem out_of_range_access_sentinel_witness:
  "\<not> index_valid (tensor4_new 3 2 1 1 :: int tensor4) 0 5
   \<and> data (tensor4_new 3 2 1 1 :: int tensor4) \<noteq> []
   \<and> subscript (tensor4_subscript (tensor4_new 3 2 1 1 :: int tensor4) 0) 5
       = ([OutOfRangeError 5 0 FirstElement], 0)
   \<and> read_at (tensor4_new 3 2 1 1 :: int tensor4) 0 5 = Inr ([OutOfRangeError 5 0 FirstElement], 0)
   \<and> map_sum id fst
        (subscript_const 2147483647 (tensor4_subscript (tensor4_new 3 2 1 1 :: int tensor4) 0) 5)
       = Inr [OutOfRangeError 5 0 MaxValue]
   \<and> \<not> index_valid (tensor4_new 3 2 1 1 :: int tensor4) 4 0
   \<and> subscript (tensor4_subscript (tensor4_new 3 2 1 1 :: int tensor4) 4) 0
       = ([DimensionNotValid 4 FirstElement], 0)
   \<and> map_sum id fst
        (subscript_const 2147483647 (tensor4_subscript (tensor4_new 3 2 1 1 :: int tensor4) 4) 0)
       = Inr [DimensionNotValid 4 MaxValue]"
proof -
  have t: "(tensor4_new 3 2 1 1 :: int tensor4)
             = \<lparr>w = 3, x = 2, y = 1, z = 1, data = [0, 0, 0, 0, 0, 0]\<rparr>" by code_simp
  let ?t = "\<lparr>w = 3, x = 2, y = 1, z = 1, data = [0, 0, 0, 0, 0, 0]\<rparr> :: int tensor4"
  have a: "\<not> index_valid ?t 0 5" by code_simp
  have b: "\<not> index_valid ?t 4 0" by code_simp
  have ea: "extent_of ?t 0 = Some 3" by code_simp
  have eb: "extent_of ?t 4 = None" by code_simp
  show ?thesis
    using out_of_range_access_sentinel [OF a, of 2147483647 5]
      out_of_range_access_sentinel [OF b, of 2147483647 5] a b
    unfolding t by (simp add: ea eb)
qed

text \<open>
  Claim C5 as stated fails. In the tensor of the default constructor the access on axis
  0 at index 0 is outside the range; the store is empty, so the reference returned by
  the writable accessor is to no element: the load and the store through it subscript an
  empty vector.
\<close>

theorem out_of_range_access_counterexample:
  "\<not> index_valid (tensor4_default :: int tensor4) 0 0
   \<and> subscript (tensor4_subscript (tensor4_default :: int tensor4) 0) 0
       = ([OutOfRangeError 0 0 FirstElement], 0)
   \<and> tensor4_size (tensor4_default :: int tensor4) = 0
   \<and> read_at (tensor4_default :: int tensor4) 0 0 = Inl (OutOfBounds 0)
   \<and> write_at (tensor4_default :: int tensor4) 0 0 5 = Inl (OutOfBounds 0)"
  by code_simp

section \<open>reshape\<close>

text \<open>
  Claim C6, as the code has it. After \<^verbatim>\<open>reshape\<close> an axis given \<open>-1\<close> has the extent it
  had and every other axis the extent given; the store has the length of the \<^verbatim>\<open>uint\<close>
  product of the new extents, which is their product where that is below \<open>2 ^ 32\<close>;
  every position of the new store below the old length holds the element it held, and
  every position from the old length on holds zero.
\<close>

theorem reshape_extents_and_store:
  "w (reshape t a b c e) = (if a = - 1 then w t else a)
   \<and> x (reshape t a b c e) = (if b = - 1 then x t else b)
   \<and> y (reshape t a b c e) = (if c = - 1 then y t else c)
   \<and> z (reshape t a b c e) = (if e = - 1 then z t else e)
   \<and> length (data (reshape t a b c e)) =
        unat (w (reshape t a b c e) * x (reshape t a b c e)
              * y (reshape t a b c e) * z (reshape t a b c e))
   \<and> (unat (w (reshape t a b c e)) * unat (x (reshape t a b c e))
        * unat (y (reshape t a b c e)) * unat (z (reshape t a b c e)) < 2 ^ 32 \<longrightarrow>
        length (data (reshape t a b c e)) =
          unat (w (reshape t a b c e)) * unat (x (reshape t a b c e))
          * unat (y (reshape t a b c e)) * unat (z (reshape t a b c e)))
   \<and> (i < length (data t) \<and> i < length (data (reshape t a b c e)) \<longrightarrow>
        data (reshape t a b c e) ! i = data t ! i)
   \<and> (length (data t) \<le> i \<and> i < length (data (reshape t a b c e)) \<longrightarrow>
        data (reshape t a b c e) ! i = 0)"
proof -
  have "unat (w (reshape t a b c e)) * unat (x (reshape t a b c e))
        * unat (y (reshape t a b c e)) * unat (z (reshape t a b c e)) < 2 ^ 32 \<longrightarrow>
        length (data (reshape t a b c e)) =
          unat (w (reshape t a b c e)) * unat (x (reshape t a b c e))
          * unat (y (reshape t a b c e)) * unat (z (reshape t a b c e))"
    using tensor4_sized_inv [of "reshape t a b c e"] tensor4_sized_reshape [of t a b c e]
    by (simp add: tensor4_inv_def)
  moreover have "length (data (reshape t a b c e)) =
        unat (w (reshape t a b c e) * x (reshape t a b c e)
              * y (reshape t a b c e) * z (reshape t a b c e))"
    using tensor4_sized_reshape [of t a b c e] by (simp add: tensor4_sized_def)
  moreover have "w (reshape t a b c e) = (if a = - 1 then w t else a)"
    and "x (reshape t a b c e) = (if b = - 1 then x t else b)"
    and "y (reshape t a b c e) = (if c = - 1 then y t else c)"
    and "z (reshape t a b c e) = (if e = - 1 then z t else e)"
    by (simp_all add: reshape_def Let_def)
  moreover have "i < length (data t) \<and> i < length (data (reshape t a b c e)) \<longrightarrow>
        data (reshape t a b c e) ! i = data t ! i"
    and "length (data t) \<le> i \<and> i < length (data (reshape t a b c e)) \<longrightarrow>
        data (reshape t a b c e) ! i = 0"
    by (simp_all add: reshape_def Let_def vector_resize_old vector_resize_new)
  ultimately show ?thesis
    by (intro conjI) assumption+
qed

text \<open>
  The theorem at a tensor with extents \<open>(3, 2, 1, 1)\<close> reshaped with \<open>(-1, 4, -1, -1)\<close>,
  at position 2 (kept) and position 7 (new).
\<close>

theorem reshape_extents_and_store_witness:
  "reshape (\<lparr>w = 3, x = 2, y = 1, z = 1, data = [1, 2, 3, 4, 5, 6]\<rparr> :: int tensor4)
       (- 1) 4 (- 1) (- 1)
     = \<lparr>w = 3, x = 4, y = 1, z = 1, data = [1, 2, 3, 4, 5, 6, 0, 0, 0, 0, 0, 0]\<rparr>
   \<and> unat (3 :: uint) * unat (4 :: uint) * unat (1 :: uint) * unat (1 :: uint) < 2 ^ 32
   \<and> (2 :: nat)
       < length (data (\<lparr>w = 3, x = 2, y = 1, z = 1, data = [1, 2, 3, 4, 5, 6]\<rparr> :: int tensor4))
   \<and> data (reshape (\<lparr>w = 3, x = 2, y = 1, z = 1, data = [1, 2, 3, 4, 5, 6]\<rparr> :: int tensor4)
       (- 1) 4 (- 1) (- 1)) ! 2 = 3
   \<and> length (data (\<lparr>w = 3, x = 2, y = 1, z = 1, data = [1, 2, 3, 4, 5, 6]\<rparr> :: int tensor4))
       \<le> 7
   \<and> data (reshape (\<lparr>w = 3, x = 2, y = 1, z = 1, data = [1, 2, 3, 4, 5, 6]\<rparr> :: int tensor4)
       (- 1) 4 (- 1) (- 1)) ! 7 = 0"
proof -
  let ?t = "\<lparr>w = 3, x = 2, y = 1, z = 1, data = [1, 2, 3, 4, 5, 6]\<rparr> :: int tensor4"
  have r: "reshape ?t (- 1) 4 (- 1) (- 1)
     = \<lparr>w = 3, x = 4, y = 1, z = 1, data = [1, 2, 3, 4, 5, 6, 0, 0, 0, 0, 0, 0]\<rparr>"
    by code_simp
  show ?thesis
    using reshape_extents_and_store [of ?t "- 1" 4 "- 1" "- 1" 2]
      reshape_extents_and_store [of ?t "- 1" 4 "- 1" "- 1" 7]
    unfolding r by simp
qed

text \<open>
  Claim C6 as stated fails. The tensor with extents \<open>(3, 2, 1, 1)\<close> and 6 elements,
  reshaped with \<open>(65536, 65536, -1, -1)\<close>, has the extents \<open>(65536, 65536, 1, 1)\<close>, whose
  product is 4294967296, and a store of no element.
\<close>

theorem reshape_wraps_counterexample:
  "reshape (tensor4_new 3 2 1 1 :: int tensor4) 65536 65536 (- 1) (- 1)
     = \<lparr>w = 65536, x = 65536, y = 1, z = 1, data = []\<rparr>
   \<and> tensor4_size (tensor4_new 3 2 1 1 :: int tensor4) = 6
   \<and> unat (65536 :: uint) * unat (65536 :: uint) * unat (1 :: uint) * unat (1 :: uint)
       = 4294967296
   \<and> \<not> tensor4_inv (reshape (tensor4_new 3 2 1 1 :: int tensor4) 65536 65536 (- 1) (- 1))"
proof -
  have r: "reshape (tensor4_new 3 2 1 1 :: int tensor4) 65536 65536 (- 1) (- 1)
     = \<lparr>w = 65536, x = 65536, y = 1, z = 1, data = []\<rparr>"
    by (simp add: reshape_def tensor4_new_def Let_def vector_resize_def)
  show ?thesis
    by (simp add: r tensor4_inv_def) (simp add: tensor4_size_def tensor4_new_def)
qed

section \<open>A stored maximum\<close>

text \<open>
  Claim C7. A read-only access at an index within the extent of its axis, whose element
  is in the store and equals the largest value of the element type, has the very outcome
  of the read-only access with the same index and axis on any tensor where that index is
  outside the extent: the out-of-range message for the index and the axis, and the
  reference to the local variable that held the largest value. A load through that
  reference is undefined in the one case as in the other.
\<close>

theorem stored_max_reads_as_out_of_range:
  "index_valid t d index \<Longrightarrow> unat (offset_of t d index) < length (data t) \<Longrightarrow>
   data t ! unat (offset_of t d index) = maxv \<Longrightarrow> \<not> index_valid t' d index \<Longrightarrow>
     subscript_const maxv (tensor4_subscript t d) index
       = Inr ([OutOfRangeError index d MaxValue], DeadLocal maxv)
   \<and> subscript_const maxv (tensor4_subscript t' d) index
       = subscript_const maxv (tensor4_subscript t d) index
   \<and> read_const_at maxv t' d index = read_const_at maxv t d index"
proof -
  assume v: "index_valid t d index" and b: "unat (offset_of t d index) < length (data t)"
    and m: "data t ! unat (offset_of t d index) = maxv" and o: "\<not> index_valid t' d index"
  from v have "extent_of t d \<noteq> None"
    by (auto simp: index_valid_def split: option.splits)
  then have e: "extent_of t' d \<noteq> None" by (simp add: extent_of_def split: if_splits)
  have 1: "subscript_const maxv (tensor4_subscript t d) index
       = Inr ([OutOfRangeError index d MaxValue], DeadLocal maxv)"
    using v b m by (simp add: subscript_const_in_store)
  have 2: "subscript_const maxv (tensor4_subscript t' d) index
       = Inr ([OutOfRangeError index d MaxValue], DeadLocal maxv)"
    using o e by (simp add: subscript_const_invalid)
  show ?thesis by (simp add: 1 2 read_const_at_def)
qed

text \<open>
  The theorem for \<^verbatim>\<open>int\<close> elements: the value 2147483647 stored on axis 0 at index 2 of a
  tensor with extents \<open>(3, 2, 1, 1)\<close>, against index 2 on axis 0 of extent 2.
\<close>

theorem stored_max_reads_as_out_of_range_witness:
  "index_valid
     (\<lparr>w = 3, x = 2, y = 1, z = 1, data = [0, 0, 2147483647, 0, 0, 0]\<rparr> :: int tensor4) 0 2
   \<and> unat (offset_of
        (\<lparr>w = 3, x = 2, y = 1, z = 1, data = [0, 0, 2147483647, 0, 0, 0]\<rparr> :: int tensor4) 0 2)
       < length (data
          (\<lparr>w = 3, x = 2, y = 1, z = 1, data = [0, 0, 2147483647, 0, 0, 0]\<rparr> :: int tensor4))
   \<and> \<not> index_valid (tensor4_new 2 2 1 1 :: int tensor4) 0 2
   \<and> subscript_const 2147483647
        (tensor4_subscript
          (\<lparr>w = 3, x = 2, y = 1, z = 1, data = [0, 0, 2147483647, 0, 0, 0]\<rparr> :: int tensor4) 0) 2
       = Inr ([OutOfRangeError 2 0 MaxValue], DeadLocal 2147483647)
   \<and> subscript_const 2147483647 (tensor4_subscript (tensor4_new 2 2 1 1 :: int tensor4) 0) 2
       = Inr ([OutOfRangeError 2 0 MaxValue], DeadLocal 2147483647)"
proof -
  let ?t = "\<lparr>w = 3, x = 2, y = 1, z = 1, data = [0, 0, 2147483647, 0, 0, 0]\<rparr> :: int tensor4"
  have v: "index_valid ?t 0 2" by code_simp
  have o: "unat (offset_of ?t 0 2) = 2" by code_simp
  have b: "unat (offset_of ?t 0 2) < length (data ?t)" by (simp add: o)
  have m: "data ?t ! unat (offset_of ?t 0 2) = 2147483647" by (simp add: o)
  have n: "\<not> index_valid (tensor4_new 2 2 1 1 :: int tensor4) 0 2" by code_simp
  show ?thesis
    using stored_max_reads_as_out_of_range [OF v b m n] v b n by simp
qed

section \<open>The fallback of the writable accessor\<close>

text \<open>
  Claim C9. The writable accessor answers an access outside the range, or with a
  dimension selector that is none of 0, 1, 2, 3, with a reference to position 0 of
  \<^verbatim>\<open>data\<close>. On an empty store that position is outside the vector, and a store or a
  load through the reference subscripts element 0 of an empty vector; on a store that is
  not empty they reach its first element. With all four extents zero, as in the tensor
  of the default constructor, whose store is empty, every access is of this kind.
\<close>

theorem fallback_on_empty_store:
  "(\<not> index_valid (t :: 'a tensor4) d index \<longrightarrow>
      snd (subscript (tensor4_subscript t d) index) = 0
    \<and> (data t = [] \<longrightarrow>
         write_at t d index v = Inl (OutOfBounds 0) \<and> read_at t d index = Inl (OutOfBounds 0))
    \<and> (data t \<noteq> [] \<longrightarrow>
         write_at t d index v
           = Inr (fst (subscript (tensor4_subscript t d) index), t\<lparr>data := (data t)[0 := v]\<rparr>)
         \<and> read_at t d index
           = Inr (fst (subscript (tensor4_subscript t d) index), data t ! 0)))
   \<and> (w t = 0 \<and> x t = 0 \<and> y t = 0 \<and> z t = 0 \<longrightarrow> \<not> index_valid t d index)
   \<and> data (tensor4_default :: 'a tensor4) = []
   \<and> \<not> index_valid (tensor4_default :: 'a tensor4) d index"
proof -
  have zero: "\<not> index_valid u d index" if "w u = 0 \<and> x u = 0 \<and> y u = 0 \<and> z u = 0"
    for u :: "'a tensor4"
    using that by (auto simp: index_valid_def extent_of_def split: option.splits if_splits)
  have "\<not> index_valid (tensor4_default :: 'a tensor4) d index"
    by (rule zero) (simp add: tensor4_default_def)
  moreover have "data (tensor4_default :: 'a tensor4) = []"
    by (simp add: tensor4_default_def)
  moreover have "snd (subscript (tensor4_subscript t d) index) = 0
    \<and> (data t = [] \<longrightarrow>
         write_at t d index v = Inl (OutOfBounds 0) \<and> read_at t d index = Inl (OutOfBounds 0))
    \<and> (data t \<noteq> [] \<longrightarrow>
         write_at t d index v
           = Inr (fst (subscript (tensor4_subscript t d) index), t\<lparr>data := (data t)[0 := v]\<rparr>)
         \<and> read_at t d index
           = Inr (fst (subscript (tensor4_subscript t d) index), data t ! 0))"
    if "\<not> index_valid t d index"
    using that
    by (simp add: subscript_invalid write_at_def read_at_def ref_write_def ref_read_def
        vector_at_def)
  ultimately show ?thesis using zero [of t] by blast
qed

text \<open>
  The theorem at the tensor of the default constructor (axis 0, index 0), and at the
  tensor with extents \<open>(1, 1, 1, 1)\<close> (axis 0, index 1), whose store is not empty.
\<close>

theorem fallback_on_empty_store_witness:
  "\<not> index_valid (tensor4_default :: int tensor4) 0 0
   \<and> data (tensor4_default :: int tensor4) = []
   \<and> subscript (tensor4_subscript (tensor4_default :: int tensor4) 0) 0
       = ([OutOfRangeError 0 0 FirstElement], 0)
   \<and> write_at (tensor4_default :: int tensor4) 0 0 5 = Inl (OutOfBounds 0)
   \<and> read_at (tensor4_default :: int tensor4) 0 0 = Inl (OutOfBounds 0)
   \<and> tensor4_new 1 1 1 1 = (\<lparr>w = 1, x = 1, y = 1, z = 1, data = [0]\<rparr> :: int tensor4)
   \<and> \<not> index_valid (\<lparr>w = 1, x = 1, y = 1, z = 1, data = [0]\<rparr> :: int tensor4) 0 1
   \<and> write_at (\<lparr>w = 1, x = 1, y = 1, z = 1, data = [0]\<rparr> :: int tensor4) 0 1 5
       = Inr ([OutOfRangeError 1 0 FirstElement], \<lparr>w = 1, x = 1, y = 1, z = 1, data = [5]\<rparr>)"
proof -
  let ?u = "\<lparr>w = 1, x = 1, y = 1, z = 1, data = [0]\<rparr> :: int tensor4"
  have a: "\<not> index_valid (tensor4_default :: int tensor4) 0 0" by code_simp
  have b: "data (tensor4_default :: int tensor4) = []" by code_simp
  have c: "subscript (tensor4_subscript (tensor4_default :: int tensor4) 0) 0
       = ([OutOfRangeError 0 0 FirstElement], 0)" by code_simp
  have e: "tensor4_new 1 1 1 1 = ?u" by code_simp
  have f: "\<not> index_valid ?u 0 1" by code_simp
  have g: "subscript (tensor4_subscript ?u 0) 1 = ([OutOfRangeError 1 0 FirstElement], 0)"
    by code_simp
  show ?thesis
    using fallback_on_empty_store [of "tensor4_default :: int tensor4" 0 0 5]
      fallback_on_empty_store [of ?u 0 1 5] a b c e f g
    by simp
qed

section \<open>The offset that is the marker\<close>



section \<open>The layer\<close>

text \<open>
  Claim C8. The \<^verbatim>\<open>outputs\<close> of a constructed layer are as many zeros as the layer has
  nodes, and \<^verbatim>\<open>initializeWeights\<close> leaves \<^verbatim>\<open>outputs\<close> as it finds them, all zero when
  called on the constructed layer, whatever the assignment through \<^verbatim>\<open>wba\<close> does to
  \<^verbatim>\<open>wba\<close> and whatever values are drawn.
\<close>

theorem initializeWeights_keeps_outputs:
  "outputs (layer_new nodes' inputs' depth' policy :: ('a::zero) layer)
       = replicate (unat nodes') 0
   \<and> length (outputs (layer_new nodes' inputs' depth' policy :: 'a layer)) = unat nodes'
   \<and> outputs (initializeWeights assign rand (L :: 'a layer) min' max') = outputs L
   \<and> outputs (initializeWeights assign rand
        (layer_new nodes' inputs' depth' policy :: 'a layer) min' max')
       = replicate (unat nodes') 0"
  by (simp add: initializeWeights_def initializeWeights_loop_outputs) (simp add: layer_new_def)

end
